theory Spec2Isabelle
  imports Main
begin

section \<open>JavaScript values and strings\<close>

text \<open>
  Every operation of \<open>CommandRunner\<close> returns
  \<open>{ content: [{ type: 'text', text: JSON.stringify(payload, null, 2) }] }\<close>.
  The wrapper is the same everywhere, so an operation is modelled by the payload object
  it hands to \<open>JSON.stringify\<close>: a list of fields in the order of the object literal.
  \<open>JUndefined\<close> is the value of a property that was never assigned (\<open>child.pid\<close> of a
  child that could not be launched).
\<close>

datatype jsval =
    JUndefined
  | JNull
  | JBool bool
  | JNum int
  | JStr string
  | JObj "(string \<times> jsval) list"

fun field :: "string \<Rightarrow> jsval \<Rightarrow> jsval option" where
  "field k (JObj fs) = map_of fs k"
| "field k _ = None"

definition has_field :: "string \<Rightarrow> jsval \<Rightarrow> bool" where
  "has_field k v = (field k v \<noteq> None)"

fun opt_num :: "int option \<Rightarrow> jsval" where
  "opt_num None = JNull"
| "opt_num (Some n) = JNum n"

fun opt_str :: "string option \<Rightarrow> jsval" where
  "opt_str None = JNull"
| "opt_str (Some s) = JStr s"

fun opt_pid :: "nat option \<Rightarrow> jsval" where
  "opt_pid None = JUndefined"
| "opt_pid (Some n) = JNum (int n)"

text \<open>
  Strings are lists of characters with codes below 256. \<open>String.prototype.trim\<close> removes
  white space and line terminators from both ends; in this range these are TAB, LF, VT,
  FF, CR, SPACE and NBSP.
\<close>

definition is_ws :: "char \<Rightarrow> bool" where
  "is_ws c = (c \<in> set [CHR 0x09, CHR 0x0A, CHR 0x0B, CHR 0x0C, CHR 0x0D, CHR 0x20, CHR 0xA0])"

definition trim :: "string \<Rightarrow> string" where
  "trim s = rev (dropWhile is_ws (rev (dropWhile is_ws s)))"

text \<open>\<open>s.split('\n')\<close>: the pieces between line feeds; the empty string gives one empty piece.\<close>

fun split_nl :: "string \<Rightarrow> string list" where
  "split_nl [] = [[]]"
| "split_nl (c # cs) =
     (if c = CHR 0x0A then [] # split_nl cs
      else (case split_nl cs of
              [] \<Rightarrow> [[c]]
            | l # ls \<Rightarrow> (c # l) # ls))"

text \<open>\<open>xs.join('\n')\<close>.\<close>

fun join_nl :: "string list \<Rightarrow> string" where
  "join_nl [] = []"
| "join_nl [x] = x"
| "join_nl (x # y # ys) = x @ CHR 0x0A # join_nl (y # ys)"

text \<open>
  \<open>xs.slice(-n)\<close> for an integer \<open>n > 0\<close>: the start index is \<open>max (length - n) 0\<close>,
  which is what truncating subtraction on \<open>nat\<close> computes.
\<close>

definition slice_last :: "int \<Rightarrow> 'a list \<Rightarrow> 'a list" where
  "slice_last n xs = drop (length xs - nat n) xs"


section \<open>The process record and the registry\<close>

text \<open>
  \<open>processInfo\<close> is the object literal of \<open>startCommand\<close>. The field \<open>id\<close> is named
  \<open>proc_id\<close> here. \<open>pid\<close> is not part of the literal and is assigned after \<open>spawn\<close>;
  \<open>None\<close> stands for \<open>undefined\<close>. Status values are the source's strings.
\<close>

record processInfo =
  proc_id :: string
  command :: string
  status :: string
  stdout :: string
  stderr :: string
  exit_code :: "int option"
  error :: "string option"
  started_at :: string
  finished_at :: "string option"
  timed_out :: bool
  pid :: "nat option"

text \<open>
  The callbacks registered by \<open>startCommand\<close> close over the \<open>processInfo\<close> object, and the
  \<open>Map\<close> \<open>this.processes\<close> refers to the same object. Objects therefore live in a store
  (\<open>heap\<close>, addressed by position) and the registry maps identifiers to addresses, in
  insertion order. \<open>timers\<close> holds the addresses of the records whose timeout timer is
  pending; \<open>kill_calls\<close> logs every call of \<open>child.kill\<close> and \<open>process.kill\<close>.
\<close>

type_synonym ref = nat

datatype kill_call = ChildKill ref | ProcessKill "nat option"

record runner =
  heap :: "processInfo list"
  processes :: "(string \<times> ref) list"
  timers :: "ref list"
  kill_calls :: "kill_call list"

definition constructor :: runner where
  "constructor = \<lparr>heap = [], processes = [], timers = [], kill_calls = []\<rparr>"

text \<open>\<open>Map.prototype.get\<close>, \<open>set\<close> and \<open>delete\<close> on an insertion-ordered association list.\<close>

definition map_get :: "(string \<times> 'a) list \<Rightarrow> string \<Rightarrow> 'a option" where
  "map_get m k = map_of m k"

fun map_set :: "(string \<times> 'a) list \<Rightarrow> string \<Rightarrow> 'a \<Rightarrow> (string \<times> 'a) list" where
  "map_set [] k v = [(k, v)]"
| "map_set ((k', v') # m) k v =
     (if k' = k then (k, v) # m else (k', v') # map_set m k v)"

definition map_delete :: "(string \<times> 'a) list \<Rightarrow> string \<Rightarrow> (string \<times> 'a) list" where
  "map_delete m k = filter (\<lambda>e. fst e \<noteq> k) m"

definition modify :: "ref \<Rightarrow> (processInfo \<Rightarrow> processInfo) \<Rightarrow> runner \<Rightarrow> runner" where
  "modify r f st = st\<lparr>heap := (heap st)[r := f (heap st ! r)]\<rparr>"

definition clearTimeout :: "ref \<Rightarrow> runner \<Rightarrow> runner" where
  "clearTimeout r st = st\<lparr>timers := removeAll r (timers st)\<rparr>"

section \<open>startCommand and its callbacks\<close>

text \<open>
  The identifier (\<open>uuidv4()\<close>) and the clock (\<open>new Date().toISOString()\<close>) are inputs.
  \<open>spawn(command, [], { shell: true })\<close> either returns a child handle, whose \<open>pid\<close> is
  \<open>undefined\<close> when the launch failed (the failure then arrives as an \<open>error\<close> event), or
  throws while it validates its arguments: Node refuses an empty command with
  \<open>ERR_INVALID_ARG_VALUE\<close>. \<open>os\<close> is what \<open>spawn\<close> does with a command that is not empty.
\<close>

datatype spawn_result = Child "nat option" | Throws string

definition spawn :: "string \<Rightarrow> spawn_result \<Rightarrow> spawn_result" where
  "spawn cmd os = (if cmd = [] then Throws ''ERR_INVALID_ARG_VALUE'' else os)"

text \<open>
  \<open>startCommand\<close> stores the record in the registry before it calls \<open>spawn\<close>, and calls
  \<open>spawn\<close> outside any \<open>try\<close>: when \<open>spawn\<close> throws, the call is rejected with that error
  (\<open>Inl\<close>), the record stays in the registry as it was stored, and no timer and no callback
  is set up. Otherwise the payload is returned (\<open>Inr\<close>); the timer is armed only for
  \<open>timeout > 0\<close>.
\<close>

definition new_ref :: "runner \<Rightarrow> ref" where
  "new_ref st = length (heap st)"

definition startCommand ::
  "runner \<Rightarrow> string \<Rightarrow> string \<Rightarrow> int \<Rightarrow> string \<Rightarrow> spawn_result
     \<Rightarrow> (string + jsval) \<times> runner" where
  "startCommand st processId cmd timeout now os =
     (let processInfo = \<lparr>proc_id = processId, command = cmd, status = ''running'',
                          stdout = [], stderr = [], exit_code = None, error = None,
                          started_at = now, finished_at = None, timed_out = False,
                          pid = None\<rparr>;
          r = new_ref st;
          st1 = st\<lparr>heap := heap st @ [processInfo],
                   processes := map_set (processes st) processId r\<rparr>
      in case spawn cmd os of
           Throws msg \<Rightarrow> (Inl msg, st1)
         | Child child_pid \<Rightarrow>
             (let st2 = modify r (\<lambda>p. p\<lparr>pid := child_pid\<rparr>) st1;
                  st3 = (if timeout > 0 then st2\<lparr>timers := timers st2 @ [r]\<rparr> else st2)
              in (Inr (JObj [(''success'', JBool True),
                             (''process_id'', JStr processId),
                             (''pid'', opt_pid child_pid),
                             (''command'', JStr cmd),
                             (''status'', JStr ''running''),
                             (''message'', JStr ''Command started. Use get_output with this process_id to check status and logs.'')]),
                  st3)))"

text \<open>The bodies of the five callbacks, as functions on the record they close over.\<close>

definition timeout_body :: "processInfo \<Rightarrow> processInfo" where
  "timeout_body p = p\<lparr>timed_out := True, status := ''timed_out''\<rparr>"

definition stdout_body :: "string \<Rightarrow> processInfo \<Rightarrow> processInfo" where
  "stdout_body d p = p\<lparr>stdout := stdout p @ d\<rparr>"

definition stderr_body :: "string \<Rightarrow> processInfo \<Rightarrow> processInfo" where
  "stderr_body d p = p\<lparr>stderr := stderr p @ d\<rparr>"

definition close_body :: "int option \<Rightarrow> string \<Rightarrow> processInfo \<Rightarrow> processInfo" where
  "close_body code now p =
     (let p1 = p\<lparr>exit_code := code, finished_at := Some now\<rparr>
      in if status p1 = ''running''
         then p1\<lparr>status := (if code = Some 0 then ''completed'' else ''failed'')\<rparr>
         else p1)"

definition error_body :: "string \<Rightarrow> string \<Rightarrow> processInfo \<Rightarrow> processInfo" where
  "error_body msg now p = p\<lparr>error := Some msg, status := ''error'', finished_at := Some now\<rparr>"

text \<open>
  What the event loop delivers to the callbacks of the record at address \<open>r\<close>. A timer
  fires only while it is pending, and once; \<open>close\<close> and \<open>error\<close> cancel it first.
\<close>

datatype child_event =
    TimerExpired
  | StdoutData string
  | StderrData string
  | Close "int option" string
  | ErrorEvent string string

definition timeout_callback :: "ref \<Rightarrow> runner \<Rightarrow> runner" where
  "timeout_callback r st =
     (let st1 = modify r timeout_body st
      in st1\<lparr>kill_calls := kill_calls st1 @ [ChildKill r]\<rparr>)"

fun deliver :: "ref \<Rightarrow> child_event \<Rightarrow> runner \<Rightarrow> runner" where
  "deliver r TimerExpired st =
     (if r \<in> set (timers st) then timeout_callback r (clearTimeout r st) else st)"
| "deliver r (StdoutData d) st = modify r (stdout_body d) st"
| "deliver r (StderrData d) st = modify r (stderr_body d) st"
| "deliver r (Close code now) st = modify r (close_body code now) (clearTimeout r st)"
| "deliver r (ErrorEvent msg now) st = modify r (error_body msg now) (clearTimeout r st)"

section \<open>getOutput, killProcess, clearProcesses\<close>

definition not_found :: "string \<Rightarrow> jsval" where
  "not_found processId =
     JObj [(''success'', JBool False),
           (''error'', JStr ''Process not found''),
           (''process_id'', JStr processId)]"

text \<open>
  The projection of one buffer in \<open>getOutput\<close>; \<open>tail\<close> is an integer, as the operation
  is declared.
\<close>

definition project :: "int \<Rightarrow> string \<Rightarrow> string" where
  "project tail s = (if tail > 0 then join_nl (slice_last tail (split_nl s)) else s)"

definition getOutput :: "runner \<Rightarrow> string \<Rightarrow> int \<Rightarrow> jsval \<times> runner" where
  "getOutput st processId tail =
     (case map_get (processes st) processId of
        None \<Rightarrow> (not_found processId, st)
      | Some r \<Rightarrow>
          (let processInfo = heap st ! r;
               out = project tail (stdout processInfo);
               err = project tail (stderr processInfo)
           in (JObj [(''success'', JBool True),
                     (''process_id'', JStr processId),
                     (''pid'', opt_pid (pid processInfo)),
                     (''command'', JStr (command processInfo)),
                     (''status'', JStr (status processInfo)),
                     (''exit_code'', opt_num (exit_code processInfo)),
                     (''stdout'', JStr (trim out)),
                     (''stderr'', JStr (trim err)),
                     (''error'', opt_str (error processInfo)),
                     (''started_at'', JStr (started_at processInfo)),
                     (''finished_at'', opt_str (finished_at processInfo)),
                     (''timed_out'', JBool (timed_out processInfo))],
               st)))"

text \<open>
  \<open>process.kill(pid, 'SIGTERM')\<close> either returns or throws; \<open>os_kill\<close> is the operating
  system's answer for a pid: \<open>None\<close> when the signal was delivered, \<open>Some msg\<close> when the
  call threw an error with that message.
\<close>

definition killProcess ::
  "runner \<Rightarrow> string \<Rightarrow> (nat option \<Rightarrow> string option) \<Rightarrow> string \<Rightarrow> jsval \<times> runner" where
  "killProcess st processId os_kill now =
     (case map_get (processes st) processId of
        None \<Rightarrow> (not_found processId, st)
      | Some r \<Rightarrow>
          (let processInfo = heap st ! r
           in if status processInfo \<noteq> ''running''
              then (JObj [(''success'', JBool False),
                          (''error'', JStr ''Process is not running''),
                          (''process_id'', JStr processId),
                          (''status'', JStr (status processInfo))],
                    st)
              else
                (let st1 = st\<lparr>kill_calls := kill_calls st @ [ProcessKill (pid processInfo)]\<rparr>
                 in case os_kill (pid processInfo) of
                      None \<Rightarrow>
                        (JObj [(''success'', JBool True),
                               (''process_id'', JStr processId),
                               (''message'', JStr ''Process killed'')],
                         modify r (\<lambda>p. p\<lparr>status := ''killed'', finished_at := Some now\<rparr>) st1)
                    | Some msg \<Rightarrow>
                        (JObj [(''success'', JBool False),
                               (''error'', JStr msg),
                               (''process_id'', JStr processId)],
                         st1))))"

text \<open>
  The loop of \<open>clearProcesses\<close> visits the entries of the map in insertion order and
  deletes the visited entry when its record is not running; \<open>cleared\<close> counts the
  deletions.
\<close>

fun clear_loop ::
  "processInfo list \<Rightarrow> (string \<times> ref) list \<Rightarrow> (string \<times> ref) list \<Rightarrow> nat
     \<Rightarrow> (string \<times> ref) list \<times> nat" where
  "clear_loop h [] m cleared = (m, cleared)"
| "clear_loop h ((k, r) # es) m cleared =
     (if status (h ! r) \<noteq> ''running''
      then clear_loop h es (map_delete m k) (cleared + 1)
      else clear_loop h es m cleared)"

text \<open>
  The template literal \<open>`Cleared ${cleared} finished processes`\<close> prints the counter
  in decimal.
\<close>

definition digit_char :: "nat \<Rightarrow> char" where
  "digit_char d = ''0123456789'' ! d"

fun show_nat :: "nat \<Rightarrow> string" where
  "show_nat n = (if n < 10 then [digit_char n] else show_nat (n div 10) @ [digit_char (n mod 10)])"

text \<open>
  \<open>processId\<close> defaults to \<open>null\<close>; the test \<open>if (processId)\<close> also sends the empty string
  to the clear-all branch.
\<close>

definition truthy :: "string option \<Rightarrow> string option" where
  "truthy processId = (case processId of None \<Rightarrow> None | Some s \<Rightarrow> if s = [] then None else Some s)"

definition clearProcesses :: "runner \<Rightarrow> string option \<Rightarrow> jsval \<times> runner" where
  "clearProcesses st processId =
     (case truthy processId of
        Some k \<Rightarrow>
          (case map_get (processes st) k of
             None \<Rightarrow> (not_found k, st)
           | Some r \<Rightarrow>
               (JObj [(''success'', JBool True),
                      (''message'', JStr ''Process cleared''),
                      (''process_id'', JStr k)],
                st\<lparr>processes := map_delete (processes st) k\<rparr>))
      | None \<Rightarrow>
          (let (m, cleared) = clear_loop (heap st) (processes st) (processes st) 0
           in (JObj [(''success'', JBool True),
                     (''message'', JStr (''Cleared '' @ show_nat cleared @ '' finished processes''))],
               st\<lparr>processes := m\<rparr>)))"

section \<open>runCommand\<close>

text \<open>
  \<open>runCommand\<close> keeps its state in local variables and resolves a promise from the first
  \<open>close\<close> or \<open>error\<close> callback; a later \<open>resolve\<close> has no effect. The timer is always
  armed; \<open>timeout\<close> is its delay, and since time is represented by the order of the
  events only, the expiry is an event like the others. The child's behaviour is the
  sequence of events the loop delivers for the child that \<open>spawn\<close> returned; the call returns \<open>Some\<close> payload when one of them
  resolved the promise and \<open>None\<close> when the promise is still pending after the whole
  sequence.
\<close>

datatype run_event =
    RTimerExpired
  | RStdout string
  | RStderr string
  | RClose "int option"
  | RError string

record run_state =
  r_stdout :: string
  r_stderr :: string
  timedOut :: bool
  timer_pending :: bool
  child_killed :: bool
  resolved :: "jsval option"

definition resolve :: "jsval \<Rightarrow> run_state \<Rightarrow> run_state" where
  "resolve v s = (case resolved s of None \<Rightarrow> s\<lparr>resolved := Some v\<rparr> | Some _ \<Rightarrow> s)"

fun run_step :: "string \<Rightarrow> run_state \<Rightarrow> run_event \<Rightarrow> run_state" where
  "run_step cmd s RTimerExpired =
     (if timer_pending s
      then s\<lparr>timedOut := True, timer_pending := False, child_killed := True\<rparr>
      else s)"
| "run_step cmd s (RStdout d) = s\<lparr>r_stdout := r_stdout s @ d\<rparr>"
| "run_step cmd s (RStderr d) = s\<lparr>r_stderr := r_stderr s @ d\<rparr>"
| "run_step cmd s (RClose code) =
     resolve (JObj [(''success'', JBool (\<not> timedOut s \<and> code = Some 0)),
                    (''exit_code'', opt_num code),
                    (''stdout'', JStr (trim (r_stdout s))),
                    (''stderr'', JStr (trim (r_stderr s))),
                    (''timed_out'', JBool (timedOut s)),
                    (''command'', JStr cmd)])
             (s\<lparr>timer_pending := False\<rparr>)"
| "run_step cmd s (RError msg) =
     resolve (JObj [(''success'', JBool False),
                    (''exit_code'', JNull),
                    (''stdout'', JStr (trim (r_stdout s))),
                    (''stderr'', JStr (trim (r_stderr s))),
                    (''error'', JStr msg),
                    (''command'', JStr cmd)])
             (s\<lparr>timer_pending := False\<rparr>)"

definition run_init :: run_state where
  "run_init = \<lparr>r_stdout = [], r_stderr = [], timedOut = False, timer_pending = True,
               child_killed = False, resolved = None\<rparr>"

definition runCommand :: "string \<Rightarrow> int \<Rightarrow> run_event list \<Rightarrow> jsval option" where
  "runCommand cmd timeout evs = resolved (foldl (run_step cmd) run_init evs)"

fun is_resolver :: "run_event \<Rightarrow> bool" where
  "is_resolver (RClose _) = True"
| "is_resolver (RError _) = True"
| "is_resolver _ = False"

section \<open>Auxiliary definitions and scenarios\<close>





text \<open>
  A registry with one tracked command started with a timeout of one second, and what
  becomes of it: output arrives, the child closes with code 0, a second command is
  started without timeout; or the command is killed, and then its timer expires; or the
  timer expires first.
\<close>

definition sc_started :: runner where
  "sc_started = snd (startCommand constructor ''p1'' ''sleep 60'' 1000 ''T0'' (Child (Some 4242)))"

definition sc_output :: runner where
  "sc_output =
     deliver 0 (StdoutData ('' a'' @ [CHR 0x0A] @ ''b'' @ [CHR 0x0A] @ ''c'' @ [CHR 0x0A])) sc_started"

definition sc_closed :: runner where
  "sc_closed = deliver 0 (Close (Some 0) ''T2'') sc_output"

definition sc_two :: runner where
  "sc_two = snd (startCommand sc_closed ''p2'' ''sleep 60'' 0 ''T3'' (Child (Some 4243)))"

definition sc_killed :: runner where
  "sc_killed = snd (killProcess sc_started ''p1'' (\<lambda>_. None) ''T1'')"

definition sc_kill_then_timer :: runner where
  "sc_kill_then_timer = deliver 0 TimerExpired sc_killed"

definition sc_timer :: runner where
  "sc_timer = deliver 0 TimerExpired sc_started"

definition sc_late_output :: runner where
  "sc_late_output = deliver 0 (StdoutData ''late'') sc_killed"


lemmas sc_defs = sc_started_def sc_output_def sc_closed_def sc_two_def sc_killed_def
  sc_kill_then_timer_def sc_timer_def sc_late_output_def
  startCommand_def spawn_def killProcess_def constructor_def new_ref_def modify_def map_get_def
  clearTimeout_def timeout_callback_def timeout_body_def getOutput_def
  stdout_body_def close_body_def

section \<open>Status transitions of a tracked record\<close>

text \<open>
  Only the \<open>close\<close> callback looks at the status before it writes one; the data callbacks
  never write it; the \<open>error\<close> and the timeout callback write theirs whatever the status was.
\<close>

lemma close_body_keeps_terminal_status:
  "status p \<noteq> ''running'' \<Longrightarrow> status (close_body code now p) = status p"
  by (simp add: close_body_def)

lemma close_body_from_running:
  "status p = ''running'' \<Longrightarrow>
   status (close_body code now p) = (if code = Some 0 then ''completed'' else ''failed'')"
  by (simp add: close_body_def)

lemma data_bodies_keep_status:
  "status (stdout_body d p) = status p" "status (stderr_body d p) = status p"
  by (simp_all add: stdout_body_def stderr_body_def)

lemma error_body_status: "status (error_body msg now p) = ''error''"
  by (simp add: error_body_def)

lemma timeout_body_status: "status (timeout_body p) = ''timed_out''"
  by (simp add: timeout_body_def)

lemma stamped_bodies:
  "finished_at (close_body code now p) = Some now"
  "finished_at (error_body msg now p) = Some now"
  "finished_at (timeout_body p) = finished_at p"
  by (simp_all add: close_body_def error_body_def timeout_body_def Let_def)

lemma timer_cancelled_by_close_and_error:
  "r \<notin> set (timers (deliver r (Close code now) st))"
  "r \<notin> set (timers (deliver r (ErrorEvent msg now) st))"
  by (simp_all add: modify_def clearTimeout_def)

lemma timer_survives_kill:
  "timers (snd (killProcess st processId os_kill now)) = timers st"
  by (simp add: killProcess_def modify_def Let_def split: option.splits)

text \<open>
  C1 (no callback changes the status of a record that has left \<open>running\<close>), evaluated on
  the code: a command is started with a timeout, \<open>killProcess\<close> succeeds on it and
  \<open>getOutput\<close> reports \<open>killed\<close>; \<open>killProcess\<close> does not cancel the timer, so the timer
  then expires and \<open>getOutput\<close> reports \<open>timed_out\<close>. The status of a record that had
  left \<open>running\<close> has changed.
\<close>

theorem timer_after_kill_overwrites_status:
  "field ''status'' (fst (getOutput sc_killed ''p1'' 0)) = Some (JStr ''killed'') \<and>
   field ''status'' (fst (getOutput sc_kill_then_timer ''p1'' 0)) = Some (JStr ''timed_out'')"
  by (simp add: sc_defs)

text \<open>
  C2 (\<open>finished_at\<close> is set exactly when the status is not \<open>running\<close>), evaluated on the
  code: when the timer of a running command expires, the callback sets the status to
  \<open>timed_out\<close> and leaves \<open>finished_at\<close> at \<open>null\<close>, which is what \<open>getOutput\<close> then shows.
\<close>

theorem timer_expiry_leaves_finished_at_null:
  "field ''status'' (fst (getOutput sc_timer ''p1'' 0)) = Some (JStr ''timed_out'') \<and>
   field ''finished_at'' (fst (getOutput sc_timer ''p1'' 0)) = Some JNull"
  by (simp add: sc_defs)

section \<open>runCommand\<close>

lemma resolved_sticky:
  "resolved s = Some v \<Longrightarrow> resolved (foldl (run_step cmd) s evs) = Some v"
proof (induction evs arbitrary: s)
  case Nil
  then show ?case by simp
next
  case (Cons e evs)
  have "resolved (run_step cmd s e) = Some v"
    using Cons.prems by (cases e) (simp_all add: resolve_def)
  then show ?case using Cons.IH by simp
qed

lemma unresolved_prefix:
  assumes "list_all (\<lambda>e. \<not> is_resolver e) pre"
      and "resolved s = None"
      and "timer_pending s \<or> timedOut s"
  shows "resolved (foldl (run_step cmd) s pre) = None \<and>
         timedOut (foldl (run_step cmd) s pre) = (timedOut s \<or> RTimerExpired \<in> set pre) \<and>
         (timer_pending (foldl (run_step cmd) s pre) \<or> timedOut (foldl (run_step cmd) s pre))"
  using assms
proof (induction pre arbitrary: s)
  case Nil
  then show ?case by simp
next
  case (Cons e pre)
  let ?s = "run_step cmd s e"
  have a: "resolved ?s = None" using Cons.prems by (cases e) simp_all
  have b: "timer_pending ?s \<or> timedOut ?s" using Cons.prems by (cases e) auto
  have c: "timedOut ?s = (timedOut s \<or> e = RTimerExpired)" using Cons.prems by (cases e) auto
  have d: "list_all (\<lambda>e. \<not> is_resolver e) pre" using Cons.prems by simp
  from Cons.IH[OF d a b] c show ?case by auto
qed

text \<open>
  C3: when the child reports a close with exit code \<open>code\<close> and this close is what
  resolves the call (no \<open>close\<close> or \<open>error\<close> was delivered before it), \<open>runCommand\<close> returns
  a result whose \<open>success\<close> is true exactly when the code is 0 and the timer did not
  expire before the close; \<open>exit_code\<close> is the code and \<open>timed_out\<close> tells whether the
  timer expired. For code 0 and no expiry this is \<open>success = true, exit_code = 0,
  timed_out = false\<close>. Whatever is delivered after the close does not change the result.
\<close>

theorem runCommand_close_result:
  assumes "list_all (\<lambda>e. \<not> is_resolver e) pre"
  shows "\<exists>res. runCommand cmd timeout (pre @ RClose code # post) = Some res
       \<and> field ''success'' res = Some (JBool (code = Some 0 \<and> RTimerExpired \<notin> set pre))
       \<and> field ''exit_code'' res = Some (opt_num code)
       \<and> field ''timed_out'' res = Some (JBool (RTimerExpired \<in> set pre))"
proof -
  let ?s = "foldl (run_step cmd) run_init pre"
  have p: "resolved ?s = None \<and> timedOut ?s = (timedOut run_init \<or> RTimerExpired \<in> set pre)"
    using unresolved_prefix[OF assms, of run_init cmd] by (simp add: run_init_def)
  then have t: "timedOut ?s = (RTimerExpired \<in> set pre)" by (simp add: run_init_def)
  let ?res = "JObj [(''success'', JBool (\<not> timedOut ?s \<and> code = Some 0)),
                    (''exit_code'', opt_num code),
                    (''stdout'', JStr (trim (r_stdout ?s))),
                    (''stderr'', JStr (trim (r_stderr ?s))),
                    (''timed_out'', JBool (timedOut ?s)),
                    (''command'', JStr cmd)]"
  have "resolved (run_step cmd ?s (RClose code)) = Some ?res"
    using p by (simp add: resolve_def)
  then have "runCommand cmd timeout (pre @ RClose code # post) = Some ?res"
    by (simp add: runCommand_def resolved_sticky)
  moreover have "field ''success'' ?res = Some (JBool (code = Some 0 \<and> RTimerExpired \<notin> set pre))"
    using t by auto
  moreover have "field ''exit_code'' ?res = Some (opt_num code)" by simp
  moreover have "field ''timed_out'' ?res = Some (JBool (RTimerExpired \<in> set pre))"
    using t by simp
  ultimately show ?thesis by blast
qed

theorem runCommand_close_result_witness:
  "list_all (\<lambda>e. \<not> is_resolver e) [RStdout (''hi'' @ [CHR 0x0A])] \<and>
   (\<exists>res. runCommand ''echo hi'' 5000 ([RStdout (''hi'' @ [CHR 0x0A])] @ RClose (Some 0) # []) = Some res
       \<and> field ''success'' res = Some (JBool True)
       \<and> field ''exit_code'' res = Some (JNum 0)
       \<and> field ''timed_out'' res = Some (JBool False))"
  using runCommand_close_result[of "[RStdout (''hi'' @ [CHR 0x0A])]" "''echo hi''" 5000 "Some 0" "[]"]
  by simp

text \<open>
  C4 (the result of a launch error has \<open>exit_code = null\<close>, the error message, the output
  captured so far, and every field of the result shape, \<open>timed_out\<close> included), evaluated
  on the code: the child delivers some output and then an \<open>error\<close> event. The result has
  \<open>success = false\<close>, \<open>exit_code = null\<close>, the trimmed output and the message, and it has
  no \<open>timed_out\<close> field.
\<close>

theorem runCommand_error_result_lacks_timed_out:
  "runCommand ''true'' 30000 [RStdout ''partial '', RError ''spawn /bin/sh EAGAIN''] =
     Some (JObj [(''success'', JBool False), (''exit_code'', JNull),
                 (''stdout'', JStr ''partial''), (''stderr'', JStr []),
                 (''error'', JStr ''spawn /bin/sh EAGAIN''), (''command'', JStr ''true'')]) \<and>
   \<not> has_field ''timed_out''
       (the (runCommand ''true'' 30000 [RStdout ''partial '', RError ''spawn /bin/sh EAGAIN'']))"
  by (simp add: runCommand_def run_init_def resolve_def trim_def is_ws_def has_field_def)

section \<open>getOutput\<close>






















section \<open>startCommand\<close>

lemma map_get_map_set: "map_get (map_set m k v) k = Some v"
  by (induction m) (auto simp: map_get_def)

lemma lookup_started:
  "map_get (processes (snd (startCommand st processId cmd timeout now os))) processId
     = Some (new_ref st)"
  by (simp add: startCommand_def Let_def modify_def map_get_map_set split: spawn_result.splits)

lemma heap_started:
  "heap (snd (startCommand st processId cmd timeout now os)) ! new_ref st =
     \<lparr>proc_id = processId, command = cmd, status = ''running'',
      stdout = [], stderr = [], exit_code = None, error = None,
      started_at = now, finished_at = None, timed_out = False,
      pid = (case spawn cmd os of Child child_pid \<Rightarrow> child_pid | Throws msg \<Rightarrow> None)\<rparr>"
  by (simp add: startCommand_def Let_def modify_def new_ref_def split: spawn_result.splits)

text \<open>
  C6: in the registry that \<open>startCommand\<close> leaves, \<open>getOutput\<close> on the new identifier does
  not answer "Process not found": it answers with \<open>success = true\<close> and the status
  \<open>running\<close>, whatever the registry held before, whatever the command and the timeout,
  and whatever \<open>spawn\<close> did (the record is stored before \<open>spawn\<close> is called).
\<close>

theorem startCommand_then_getOutput_found:
  "fst (getOutput (snd (startCommand st processId cmd timeout now os)) processId tail)
     \<noteq> not_found processId \<and>
   field ''success''
     (fst (getOutput (snd (startCommand st processId cmd timeout now os)) processId tail))
     = Some (JBool True) \<and>
   field ''status''
     (fst (getOutput (snd (startCommand st processId cmd timeout now os)) processId tail))
     = Some (JStr ''running'')"
  by (simp add: getOutput_def lookup_started heap_started Let_def not_found_def)




section \<open>killProcess\<close>

text \<open>
  C7: when \<open>process.kill\<close> throws on a running record, \<open>killProcess\<close> returns the failure
  payload with the message of the error thrown, and the records, the registry and the
  timers are what they were: no status and no \<open>finished_at\<close> is written.
\<close>

theorem killProcess_signal_failure:
  assumes "map_get (processes st) processId = Some r"
      and "status (heap st ! r) = ''running''"
      and "os_kill (pid (heap st ! r)) = Some msg"
  shows "fst (killProcess st processId os_kill now) =
           JObj [(''success'', JBool False), (''error'', JStr msg), (''process_id'', JStr processId)] \<and>
         heap (snd (killProcess st processId os_kill now)) = heap st \<and>
         processes (snd (killProcess st processId os_kill now)) = processes st \<and>
         timers (snd (killProcess st processId os_kill now)) = timers st"
  using assms by (simp add: killProcess_def Let_def)

theorem killProcess_signal_failure_witness:
  "map_get (processes sc_started) ''p1'' = Some 0 \<and>
   status (heap sc_started ! 0) = ''running'' \<and>
   (\<lambda>_. Some ''kill ESRCH'') (pid (heap sc_started ! 0)) = Some ''kill ESRCH'' \<and>
   fst (killProcess sc_started ''p1'' (\<lambda>_. Some ''kill ESRCH'') ''T1'') =
      JObj [(''success'', JBool False), (''error'', JStr ''kill ESRCH''), (''process_id'', JStr ''p1'')] \<and>
   heap (snd (killProcess sc_started ''p1'' (\<lambda>_. Some ''kill ESRCH'') ''T1'')) = heap sc_started \<and>
   processes (snd (killProcess sc_started ''p1'' (\<lambda>_. Some ''kill ESRCH'') ''T1'')) = processes sc_started \<and>
   timers (snd (killProcess sc_started ''p1'' (\<lambda>_. Some ''kill ESRCH'') ''T1'')) = timers sc_started"
proof -
  have a: "map_get (processes sc_started) ''p1'' = Some 0" by (simp add: sc_defs)
  have b: "status (heap sc_started ! 0) = ''running''" by (simp add: sc_defs)
  have c: "(\<lambda>_. Some ''kill ESRCH'') (pid (heap sc_started ! 0)) = Some ''kill ESRCH''" by simp
  show ?thesis using a b killProcess_signal_failure[OF a b c, of "''T1''"] by simp
qed

text \<open>
  C8: \<open>killProcess\<close> on an identifier that is not in the registry returns "Process not
  found"; on a record whose status is not \<open>running\<close> it returns "Process is not running"
  with that status. In both cases the whole state is returned as it was: no call of
  \<open>process.kill\<close> is logged and no field of any record, \<open>finished_at\<close> included, changes.
\<close>

theorem killProcess_not_found_not_running:
  "(map_get (processes st) processId = None \<longrightarrow>
      killProcess st processId os_kill now = (not_found processId, st)) \<and>
   (\<forall>r. map_get (processes st) processId = Some r \<and> status (heap st ! r) \<noteq> ''running'' \<longrightarrow>
      killProcess st processId os_kill now =
        (JObj [(''success'', JBool False), (''error'', JStr ''Process is not running''),
               (''process_id'', JStr processId), (''status'', JStr (status (heap st ! r)))], st))"
  by (simp add: killProcess_def Let_def)

theorem killProcess_not_found_not_running_witness:
  "map_get (processes sc_closed) ''nope'' = None \<and>
   killProcess sc_closed ''nope'' (\<lambda>_. None) ''T9'' = (not_found ''nope'', sc_closed) \<and>
   map_get (processes sc_closed) ''p1'' = Some 0 \<and> status (heap sc_closed ! 0) = ''completed'' \<and>
   killProcess sc_closed ''p1'' (\<lambda>_. None) ''T9'' =
        (JObj [(''success'', JBool False), (''error'', JStr ''Process is not running''),
               (''process_id'', JStr ''p1''), (''status'', JStr ''completed'')], sc_closed) \<and>
   finished_at (heap (snd (killProcess sc_closed ''p1'' (\<lambda>_. None) ''T9'')) ! 0) = Some ''T2''"
proof -
  have a: "map_get (processes sc_closed) ''nope'' = None" by (simp add: sc_defs)
  have b: "map_get (processes sc_closed) ''p1'' = Some 0" by (simp add: sc_defs)
  have c: "status (heap sc_closed ! 0) = ''completed''" by (simp add: sc_defs)
  have d: "finished_at (heap sc_closed ! 0) = Some ''T2''" by (simp add: sc_defs)
  show ?thesis
    using a b c d killProcess_not_found_not_running[of sc_closed "''nope''" "\<lambda>_. None" "''T9''"]
      killProcess_not_found_not_running[of sc_closed "''p1''" "\<lambda>_. None" "''T9''"]
    by simp
qed

section \<open>clearProcesses\<close>

lemma clear_loop_eq:
  "clear_loop h es m c =
     (filter (\<lambda>e. \<not> (\<exists>r'. (fst e, r') \<in> set es \<and> status (h ! r') \<noteq> ''running'')) m,
      c + length (filter (\<lambda>e. status (h ! snd e) \<noteq> ''running'') es))"
proof (induction es arbitrary: m c)
  case Nil
  then show ?case by simp
next
  case (Cons e es)
  obtain k r where e: "e = (k, r)" by (cases e)
  show ?case
  proof (cases "status (h ! r) = ''running''")
    case True
    then show ?thesis using Cons.IH[of m c] e by (auto intro!: filter_cong)
  next
    case False
    then show ?thesis using Cons.IH[of "map_delete m k" "c + 1"] e
      by (auto simp: map_delete_def intro!: filter_cong)
  qed
qed

lemma distinct_keys_value:
  "distinct (map fst m) \<Longrightarrow> (k, a) \<in> set m \<Longrightarrow> (k, b) \<in> set m \<Longrightarrow> a = b"
  by (induction m) (auto simp: rev_image_eqI)

lemma clear_loop_all:
  assumes "distinct (map fst m)"
  shows "clear_loop h m m 0 =
           (filter (\<lambda>e. status (h ! snd e) = ''running'') m,
            length (filter (\<lambda>e. status (h ! snd e) \<noteq> ''running'') m))"
proof -
  have "filter (\<lambda>e. \<not> (\<exists>r'. (fst e, r') \<in> set m \<and> status (h ! r') \<noteq> ''running'')) m =
        filter (\<lambda>e. status (h ! snd e) = ''running'') m"
  proof (rule filter_cong[OF refl])
    fix e assume "e \<in> set m"
    then have "(fst e, snd e) \<in> set m" by simp
    then show "(\<not> (\<exists>r'. (fst e, r') \<in> set m \<and> status (h ! r') \<noteq> ''running'')) =
               (status (h ! snd e) = ''running'')"
      using distinct_keys_value[OF assms] by blast
  qed
  then show ?thesis by (simp add: clear_loop_eq)
qed

text \<open>
  The keys of a JavaScript \<open>Map\<close> are distinct. The association list has this property
  in the initial registry and keeps it under every operation and every callback.
\<close>

lemma keys_map_set: "fst ` set (map_set m k v) = insert k (fst ` set m)"
proof (induction m)
  case Nil
  then show ?case by simp
next
  case (Cons e m)
  obtain k' v' where e: "e = (k', v')" by (cases e)
  show ?case using Cons.IH e by (cases "k' = k") auto
qed

lemma distinct_map_set: "distinct (map fst m) \<Longrightarrow> distinct (map fst (map_set m k v))"
proof (induction m)
  case Nil
  then show ?case by simp
next
  case (Cons e m)
  obtain k' v' where e: "e = (k', v')" by (cases e)
  show ?case using Cons e keys_map_set[of m k v] by (cases "k' = k") auto
qed

lemma distinct_map_delete: "distinct (map fst m) \<Longrightarrow> distinct (map fst (map_delete m k))"
  by (simp add: map_delete_def distinct_map_filter)

lemma distinct_keys_constructor: "distinct (map fst (processes constructor))"
  by (simp add: constructor_def)

lemma distinct_keys_startCommand:
  "distinct (map fst (processes st)) \<Longrightarrow>
   distinct (map fst (processes (snd (startCommand st processId cmd timeout now os))))"
  by (simp add: startCommand_def Let_def modify_def distinct_map_set split: spawn_result.splits)

lemma distinct_keys_deliver:
  "distinct (map fst (processes st)) \<Longrightarrow> distinct (map fst (processes (deliver r ev st)))"
  by (cases ev) (simp_all add: modify_def clearTimeout_def timeout_callback_def Let_def)

lemma distinct_keys_killProcess:
  "distinct (map fst (processes st)) \<Longrightarrow>
   distinct (map fst (processes (snd (killProcess st processId os_kill now))))"
  by (simp add: killProcess_def modify_def Let_def split: option.splits)

lemma distinct_keys_clearProcesses:
  "distinct (map fst (processes st)) \<Longrightarrow>
   distinct (map fst (processes (snd (clearProcesses st processId))))"
  by (simp add: clearProcesses_def clear_loop_eq distinct_map_delete distinct_map_filter
      del: show_nat.simps split: option.splits)

text \<open>
  C9: \<open>clearProcesses\<close> without identifier leaves in the registry exactly the entries whose
  record has the status \<open>running\<close>, in their order, and changes no record; the number in
  its message is the number of entries removed.
\<close>

theorem clearProcesses_all:
  assumes "distinct (map fst (processes st))"
  shows "processes (snd (clearProcesses st None)) =
           filter (\<lambda>e. status (heap st ! snd e) = ''running'') (processes st) \<and>
         heap (snd (clearProcesses st None)) = heap st \<and>
         field ''message'' (fst (clearProcesses st None)) =
           Some (JStr (''Cleared '' @
                       show_nat (length (processes st) - length (processes (snd (clearProcesses st None))))
                       @ '' finished processes''))"
proof -
  let ?run = "\<lambda>e. status (heap st ! snd e) = ''running''"
  have "length (filter ?run (processes st)) + length (filter (\<lambda>e. \<not> ?run e) (processes st))
          = length (processes st)"
    by (rule sum_length_filter_compl)
  then have n: "length (filter (\<lambda>e. \<not> ?run e) (processes st)) =
             length (processes st) - length (filter ?run (processes st))" by simp
  show ?thesis
    using n by (simp add: clearProcesses_def truthy_def clear_loop_all[OF assms] del: show_nat.simps)
qed

theorem clearProcesses_all_witness:
  "distinct (map fst (processes sc_two)) \<and>
   processes sc_two = [(''p1'', 0), (''p2'', 1)] \<and>
   status (heap sc_two ! 0) = ''completed'' \<and> status (heap sc_two ! 1) = ''running'' \<and>
   processes (snd (clearProcesses sc_two None)) = [(''p2'', 1)] \<and>
   heap (snd (clearProcesses sc_two None)) = heap sc_two \<and>
   field ''message'' (fst (clearProcesses sc_two None)) = Some (JStr ''Cleared 1 finished processes'')"
proof -
  have a: "distinct (map fst (processes sc_two))" by (simp add: sc_defs)
  have b: "processes sc_two = [(''p1'', 0), (''p2'', 1)]" by (simp add: sc_defs)
  have c: "status (heap sc_two ! 0) = ''completed''" by (simp add: sc_defs)
  have d: "status (heap sc_two ! 1) = ''running''" by (simp add: sc_defs)
  have e: "show_nat 1 = ''1''" by (simp add: digit_char_def)
  show ?thesis using a clearProcesses_all[OF a] b c d e by (simp del: show_nat.simps)
qed

end
